theory Spec2Isabelle
  imports Complex_Main "HOL-Library.AList"
begin

section \<open>JavaScript values\<close>

text \<open>
  The reward calculator (\<^verbatim>\<open>src/rewardCalculator.js\<close>) is written against dynamically
  typed JavaScript values, so the embedding starts with the values its checks can tell
  apart.

  A JavaScript number is \<^verbatim>\<open>NaN\<close>, one of the two infinities, or a finite number. Finite
  numbers are modelled as exact rationals (every finite binary64 value is one) and the
  arithmetic on them is exact: the rounding of binary64 results, overflow of finite
  operands to an infinity and the sign of zero are not modelled. The behaviour of the
  special values follows ECMAScript. For the calculator this idealisation is harmless on
  the amounts of commerce: on an amount below \<open>2^52\<close> every subtraction, doubling, floor
  and sum that \<^verbatim>\<open>calculatePointsForTransaction\<close> performs is exact in binary64 too.
\<close>

datatype jsnum = NaN | PInf | NInf | Fin rat

text \<open>
  Strings are lists of characters. An object is the association list of its own
  properties in insertion order, every key occurring once; an array is the list of its
  elements.
\<close>

datatype jsval =
    Undefined
  | Null
  | Bool bool
  | Num jsnum
  | Str string
  | Arr "jsval list"
  | Obj "(string \<times> jsval) list"

subsection \<open>Number operations\<close>

fun js_neg :: "jsnum \<Rightarrow> jsnum" where
  "js_neg NaN = NaN"
| "js_neg PInf = NInf"
| "js_neg NInf = PInf"
| "js_neg (Fin a) = Fin (- a)"

text \<open>\<^verbatim>\<open>a + b\<close> on numbers.\<close>

fun js_add :: "jsnum \<Rightarrow> jsnum \<Rightarrow> jsnum" where
  "js_add NaN b = NaN"
| "js_add a NaN = NaN"
| "js_add (Fin a) (Fin b) = Fin (a + b)"
| "js_add PInf NInf = NaN"
| "js_add NInf PInf = NaN"
| "js_add PInf b = PInf"
| "js_add a PInf = PInf"
| "js_add NInf b = NInf"
| "js_add a NInf = NInf"

text \<open>\<^verbatim>\<open>a - b\<close> on numbers.\<close>

definition js_sub :: "jsnum \<Rightarrow> jsnum \<Rightarrow> jsnum" where
  "js_sub a b = js_add a (js_neg b)"

text \<open>\<^verbatim>\<open>a * b\<close> on numbers: an infinity times zero is \<^verbatim>\<open>NaN\<close>.\<close>

fun js_mul :: "jsnum \<Rightarrow> jsnum \<Rightarrow> jsnum" where
  "js_mul NaN b = NaN"
| "js_mul a NaN = NaN"
| "js_mul (Fin a) (Fin b) = Fin (a * b)"
| "js_mul (Fin a) PInf = (if a = 0 then NaN else if 0 < a then PInf else NInf)"
| "js_mul (Fin a) NInf = (if a = 0 then NaN else if 0 < a then NInf else PInf)"
| "js_mul PInf (Fin b) = (if b = 0 then NaN else if 0 < b then PInf else NInf)"
| "js_mul NInf (Fin b) = (if b = 0 then NaN else if 0 < b then NInf else PInf)"
| "js_mul PInf PInf = PInf"
| "js_mul PInf NInf = NInf"
| "js_mul NInf PInf = NInf"
| "js_mul NInf NInf = PInf"

text \<open>\<^verbatim>\<open>a < b\<close> on numbers: every comparison with \<^verbatim>\<open>NaN\<close> is false.\<close>

fun js_lt :: "jsnum \<Rightarrow> jsnum \<Rightarrow> bool" where
  "js_lt NaN b = False"
| "js_lt a NaN = False"
| "js_lt (Fin a) (Fin b) = (a < b)"
| "js_lt a NInf = False"
| "js_lt PInf b = False"
| "js_lt NInf b = True"
| "js_lt a PInf = True"

definition js_gt :: "jsnum \<Rightarrow> jsnum \<Rightarrow> bool" where
  "js_gt a b = js_lt b a"

text \<open>\<^verbatim>\<open>a <= b\<close> and \<^verbatim>\<open>a >= b\<close> on numbers.\<close>

definition js_le :: "jsnum \<Rightarrow> jsnum \<Rightarrow> bool" where
  "js_le a b = (a \<noteq> NaN \<and> b \<noteq> NaN \<and> (a = b \<or> js_lt a b))"

definition js_ge :: "jsnum \<Rightarrow> jsnum \<Rightarrow> bool" where
  "js_ge a b = js_le b a"

text \<open>\<^verbatim>\<open>isNaN(a)\<close> on a number.\<close>

definition isNaN :: "jsnum \<Rightarrow> bool" where
  "isNaN a = (a = NaN)"

text \<open>\<^verbatim>\<open>Math.min(a, b)\<close> and \<^verbatim>\<open>Math.floor(a)\<close>.\<close>

definition Math_min :: "jsnum \<Rightarrow> jsnum \<Rightarrow> jsnum" where
  "Math_min a b = (if a = NaN \<or> b = NaN then NaN else if js_lt b a then b else a)"

fun Math_floor :: "jsnum \<Rightarrow> jsnum" where
  "Math_floor (Fin a) = Fin (of_int \<lfloor>a\<rfloor>)"
| "Math_floor a = a"

subsection \<open>Value operations\<close>

text \<open>The \<^verbatim>\<open>typeof\<close> operator.\<close>

fun typeof :: "jsval \<Rightarrow> string" where
  "typeof Undefined = ''undefined''"
| "typeof Null = ''object''"
| "typeof (Bool b) = ''boolean''"
| "typeof (Num a) = ''number''"
| "typeof (Str s) = ''string''"
| "typeof (Arr xs) = ''object''"
| "typeof (Obj ps) = ''object''"


text \<open>Truthiness, as tested by \<^verbatim>\<open>!v\<close> and \<^verbatim>\<open>||\<close>.\<close>

fun truthy :: "jsval \<Rightarrow> bool" where
  "truthy Undefined = False"
| "truthy Null = False"
| "truthy (Bool b) = b"
| "truthy (Num a) = (a \<noteq> NaN \<and> a \<noteq> Fin 0)"
| "truthy (Str s) = (s \<noteq> [])"
| "truthy (Arr xs) = True"
| "truthy (Obj ps) = True"

text \<open>
  Property read \<^verbatim>\<open>v.k\<close> for a name \<open>k\<close> that no prototype defines: the own property of
  an object, \<^verbatim>\<open>undefined\<close> on every other value. (On \<^verbatim>\<open>null\<close> and \<^verbatim>\<open>undefined\<close> the
  read raises; the calculator tests \<^verbatim>\<open>!v\<close> first and never reaches it.)
\<close>

fun get_prop :: "jsval \<Rightarrow> string \<Rightarrow> jsval" where
  "get_prop (Obj ps) k = (case map_of ps k of None \<Rightarrow> Undefined | Some v \<Rightarrow> v)"
| "get_prop v k = Undefined"

section \<open>The reward calculator\<close>

subsection \<open>Constants\<close>

text \<open>\<^verbatim>\<open>CONSTANTS.REWARDS\<close> of \<^verbatim>\<open>src/constants.js\<close>.\<close>

definition HIGH_THRESHOLD :: jsnum where "HIGH_THRESHOLD = Fin 100"
definition LOW_THRESHOLD :: jsnum where "LOW_THRESHOLD = Fin 50"
definition HIGH_MULTIPLIER :: jsnum where "HIGH_MULTIPLIER = Fin 2"
definition LOW_MULTIPLIER :: jsnum where "LOW_MULTIPLIER = Fin 1"

subsection \<open>Errors\<close>

text \<open>
  The calculator throws \<^verbatim>\<open>Error\<close> objects that differ in their message:
  \<^verbatim>\<open>Invalid transaction amount: <amount>\<close> is \<open>InvalidAmount\<close> with the offending value,
  \<^verbatim>\<open>Transactions must be an array\<close> is \<open>InvalidInput\<close>, and
  \<^verbatim>\<open>Invalid date provided\<close> is \<open>InvalidDate\<close>. Logging is the only other effect of the
  module and is left out.
\<close>

datatype error = InvalidAmount jsval | InvalidInput | InvalidDate

subsection \<open>Points of one transaction\<close>

text \<open>
  \<^verbatim>\<open>RewardCalculator.calculatePointsForTransaction(amount)\<close>. The test
  \<^verbatim>\<open>typeof amount !== 'number'\<close> is the \<open>case\<close> on the value: every value that is not a
  number raises, and so does a number that is \<^verbatim>\<open>NaN\<close> or below 0.
\<close>

definition calculatePointsForTransaction :: "jsval \<Rightarrow> error + jsnum" where
  "calculatePointsForTransaction amount =
     (case amount of
        Num a \<Rightarrow>
          if isNaN a \<or> js_lt a (Fin 0) then Inl (InvalidAmount amount)
          else
            let points = Fin 0;
                points =
                  (if js_gt a HIGH_THRESHOLD
                   then js_add points
                          (Math_floor (js_mul (js_sub a HIGH_THRESHOLD) HIGH_MULTIPLIER))
                   else points);
                amountForLowTier = js_sub (Math_min a HIGH_THRESHOLD) LOW_THRESHOLD;
                points =
                  (if js_gt amountForLowTier (Fin 0)
                   then js_add points (Math_floor (js_mul amountForLowTier LOW_MULTIPLIER))
                   else points)
            in Inr points
      | _ \<Rightarrow> Inl (InvalidAmount amount))"

text \<open>\<^verbatim>\<open>RewardCalculator.getPointsBreakdown(amount)\<close>; the result is the object
  \<^verbatim>\<open>{ highTier, lowTier }\<close>.\<close>

record points_breakdown =
  highTier :: jsnum
  lowTier :: jsnum

definition getPointsBreakdown :: "jsval \<Rightarrow> points_breakdown" where
  "getPointsBreakdown amount =
     (case amount of
        Num a \<Rightarrow>
          if isNaN a \<or> js_lt a (Fin 0) then \<lparr>highTier = Fin 0, lowTier = Fin 0\<rparr>
          else
            let highTierPoints =
                  (if js_gt a HIGH_THRESHOLD
                   then Math_floor (js_mul (js_sub a HIGH_THRESHOLD) HIGH_MULTIPLIER)
                   else Fin 0);
                amountForLowTier = js_sub (Math_min a HIGH_THRESHOLD) LOW_THRESHOLD;
                lowTierPoints =
                  (if js_gt amountForLowTier (Fin 0)
                   then Math_floor (js_mul amountForLowTier LOW_MULTIPLIER)
                   else Fin 0)
            in \<lparr>highTier = highTierPoints, lowTier = lowTierPoints\<rparr>
      | _ \<Rightarrow> \<lparr>highTier = Fin 0, lowTier = Fin 0\<rparr>)"


subsection \<open>Total over a list of transactions\<close>



subsection \<open>Dates and month keys\<close>

text \<open>
  A \<^verbatim>\<open>Date\<close> object is either invalid (its time value is \<^verbatim>\<open>NaN\<close>), modelled as \<open>None\<close>,
  or has a local calendar date, of which the calculator reads \<^verbatim>\<open>getFullYear()\<close> and
  \<^verbatim>\<open>getMonth()\<close> (0 for January). The \<^verbatim>\<open>Date\<close> constructor belongs to the runtime and
  depends on its time zone; the functions that call it take it as the parameter
  \<open>newDate\<close>.
\<close>

record jsdate =
  getFullYear :: int
  getMonth :: nat

text \<open>\<^verbatim>\<open>String(n)\<close> for a natural number and for an integer.\<close>

definition digit_char :: "nat \<Rightarrow> char" where
  "digit_char d = ''0123456789'' ! d"

fun string_of_nat :: "nat \<Rightarrow> string" where
  "string_of_nat n =
     (if n < 10 then [digit_char n] else string_of_nat (n div 10) @ [digit_char (n mod 10)])"

declare string_of_nat.simps [simp del]

definition string_of_int :: "int \<Rightarrow> string" where
  "string_of_int i =
     (if i < 0 then CHR ''-'' # string_of_nat (nat (- i)) else string_of_nat (nat i))"

text \<open>\<^verbatim>\<open>s.padStart(n, c)\<close> for a one-character filler.\<close>

definition padStart :: "nat \<Rightarrow> char \<Rightarrow> string \<Rightarrow> string" where
  "padStart n c s = replicate (n - length s) c @ s"

text \<open>\<^verbatim>\<open>RewardCalculator.getMonthYearKey(date)\<close>.\<close>

definition getMonthYearKey :: "jsdate option \<Rightarrow> error + string" where
  "getMonthYearKey date =
     (case date of
        None \<Rightarrow> Inl InvalidDate
      | Some d \<Rightarrow>
          let year = getFullYear d;
              month = padStart 2 CHR ''0'' (string_of_nat (getMonth d + 1))
          in Inr (string_of_int year @ ''-'' @ month))"

subsection \<open>Monthly breakdown\<close>

text \<open>
  The result object of \<^verbatim>\<open>calculateMonthlyBreakdown\<close> maps month keys to buckets
  \<^verbatim>\<open>{ points, transactionCount, totalAmount }\<close>; its keys are kept in insertion order. The
  count only ever grows from 0 in steps of 1 and is a natural number.
\<close>

record monthly_bucket =
  points :: jsnum
  transactionCount :: nat
  totalAmount :: jsnum

type_synonym monthly_breakdown = "(string \<times> monthly_bucket) list"

text \<open>The three \<^verbatim>\<open>+=\<close> and \<^verbatim>\<open>++\<close> updates of a bucket.\<close>

definition accumulate :: "jsnum \<Rightarrow> jsnum \<Rightarrow> monthly_bucket \<Rightarrow> monthly_bucket" where
  "accumulate pts amount b =
     b\<lparr>points := js_add (points b) pts,
       transactionCount := transactionCount b + 1,
       totalAmount := js_add (totalAmount b) amount\<rparr>"

text \<open>
  The loop of \<^verbatim>\<open>calculateMonthlyBreakdown\<close>, carrying \<^verbatim>\<open>monthlyBreakdown\<close>. The guard
  \<^verbatim>\<open>typeof transaction.amount !== 'number'\<close> is the \<open>case\<close> on the amount, which also
  names the number that \<^verbatim>\<open>totalAmount += transaction.amount\<close> adds. The points are
  computed before the bucket is looked up, so an amount that is rejected leaves the
  mapping unchanged.
\<close>

fun breakdown_loop ::
  "(jsval \<Rightarrow> jsdate option) \<Rightarrow> jsval list \<Rightarrow> monthly_breakdown \<Rightarrow> monthly_breakdown" where
  "breakdown_loop newDate [] monthlyBreakdown = monthlyBreakdown"
| "breakdown_loop newDate (transaction # rest) monthlyBreakdown =
     (if \<not> truthy transaction \<or> \<not> truthy (get_prop transaction ''date'')
      then breakdown_loop newDate rest monthlyBreakdown
      else
        (case get_prop transaction ''amount'' of
           Num amount \<Rightarrow>
             (let transactionDate = newDate (get_prop transaction ''date'') in
              if transactionDate = None then breakdown_loop newDate rest monthlyBreakdown
              else
                (case getMonthYearKey transactionDate of
                   Inl error \<Rightarrow> breakdown_loop newDate rest monthlyBreakdown
                 | Inr monthYear \<Rightarrow>
                     (case calculatePointsForTransaction (Num amount) of
                        Inl error \<Rightarrow> breakdown_loop newDate rest monthlyBreakdown
                      | Inr pts \<Rightarrow>
                          (let monthlyBreakdown =
                                 (if map_of monthlyBreakdown monthYear = None
                                  then monthlyBreakdown @
                                         [(monthYear,
                                           \<lparr>points = Fin 0, transactionCount = 0,
                                            totalAmount = Fin 0\<rparr>)]
                                  else monthlyBreakdown)
                           in breakdown_loop newDate rest
                                (AList.map_entry monthYear (accumulate pts amount)
                                   monthlyBreakdown)))))
         | _ \<Rightarrow> breakdown_loop newDate rest monthlyBreakdown))"

declare breakdown_loop.simps(2) [simp del]

text \<open>\<^verbatim>\<open>RewardCalculator.calculateMonthlyBreakdown(transactions)\<close>.\<close>

definition calculateMonthlyBreakdown ::
  "(jsval \<Rightarrow> jsdate option) \<Rightarrow> jsval \<Rightarrow> error + monthly_breakdown" where
  "calculateMonthlyBreakdown newDate transactions =
     (case transactions of
        Arr ts \<Rightarrow> Inr (breakdown_loop newDate ts [])
      | _ \<Rightarrow> Inl InvalidInput)"

subsection \<open>Transactions annotated with their points\<close>

text \<open>
  Object spread \<^verbatim>\<open>{ ...v }\<close> copies the own enumerable properties of \<open>v\<close>: those of an
  object, the indexed elements of an array or a string, and nothing for other values.
\<close>

fun spread :: "jsval \<Rightarrow> (string \<times> jsval) list" where
  "spread (Obj ps) = ps"
| "spread (Arr xs) = zip (map string_of_nat [0..<length xs]) xs"
| "spread (Str s) = zip (map string_of_nat [0..<length s]) (map (\<lambda>c. Str [c]) s)"
| "spread v = []"

definition breakdown_obj :: "points_breakdown \<Rightarrow> jsval" where
  "breakdown_obj b = Obj [(''highTier'', Num (highTier b)), (''lowTier'', Num (lowTier b))]"

text \<open>The object literal \<^verbatim>\<open>{ ...transaction, points: p, pointsBreakdown: b }\<close>.\<close>

definition with_points :: "jsval \<Rightarrow> jsnum \<Rightarrow> points_breakdown \<Rightarrow> jsval" where
  "with_points transaction p b =
     Obj (AList.update ''pointsBreakdown'' (breakdown_obj b)
            (AList.update ''points'' (Num p) (spread transaction)))"

text \<open>
  The loop of \<^verbatim>\<open>calculatePointsWithDetails\<close>, carrying \<^verbatim>\<open>transactionsWithPoints\<close>. The
  guard at its head leaves by \<^verbatim>\<open>continue\<close>; only the \<^verbatim>\<open>catch\<close> block pushes the record
  with zero points.
\<close>

fun details_loop :: "jsval list \<Rightarrow> jsval list \<Rightarrow> jsval list" where
  "details_loop [] transactionsWithPoints = transactionsWithPoints"
| "details_loop (transaction # rest) transactionsWithPoints =
     (if \<not> truthy transaction \<or> typeof (get_prop transaction ''amount'') \<noteq> ''number''
      then details_loop rest transactionsWithPoints
      else
        (case calculatePointsForTransaction (get_prop transaction ''amount'') of
           Inr pts \<Rightarrow>
             details_loop rest
               (transactionsWithPoints @
                  [with_points transaction pts
                     (getPointsBreakdown (get_prop transaction ''amount''))])
         | Inl error \<Rightarrow>
             details_loop rest
               (transactionsWithPoints @
                  [with_points transaction (Fin 0) \<lparr>highTier = Fin 0, lowTier = Fin 0\<rparr>])))"

text \<open>\<^verbatim>\<open>RewardCalculator.calculatePointsWithDetails(transactions)\<close>.\<close>

definition calculatePointsWithDetails :: "jsval \<Rightarrow> error + jsval list" where
  "calculatePointsWithDetails transactions =
     (case transactions of
        Arr ts \<Rightarrow> Inr (details_loop ts [])
      | _ \<Rightarrow> Inl InvalidInput)"

subsection \<open>Display of a month key\<close>

text \<open>
  \<^verbatim>\<open>s.split(c)\<close> for a one-character separator. The result is never empty; a
  character other than the separator goes to the front of the first part.
\<close>

fun split :: "char \<Rightarrow> string \<Rightarrow> string list" where
  "split c [] = [[]]"
| "split c (x # xs) =
     (if x = c then [] # split c xs
      else (case split c xs of [] \<Rightarrow> [[x]] | part # parts \<Rightarrow> (x # part) # parts))"

text \<open>
  An element of an array of strings as a template literal prints it: \<^verbatim>\<open>undefined\<close> where
  the array has no such element.
\<close>

definition element_text :: "string list \<Rightarrow> nat \<Rightarrow> string" where
  "element_text parts i = (if i < length parts then parts ! i else ''undefined'')"

text \<open>
  \<^verbatim>\<open>parseInt(s, 10)\<close>, with \<open>None\<close> for \<^verbatim>\<open>NaN\<close>: leading white space is dropped, a sign
  is read, and the longest prefix of decimal digits is the value.
\<close>

definition is_white :: "char \<Rightarrow> bool" where
  "is_white c = (of_char c \<in> {9, 10, 11, 12, 13, 32, 160 :: nat})"

definition is_digit :: "char \<Rightarrow> bool" where
  "is_digit c = (48 \<le> (of_char c :: nat) \<and> (of_char c :: nat) \<le> 57)"

definition digits_value :: "string \<Rightarrow> nat" where
  "digits_value ds = foldl (\<lambda>n c. 10 * n + (of_char c - 48)) 0 ds"

definition parseInt :: "string \<Rightarrow> int option" where
  "parseInt str =
     (let s = dropWhile is_white str;
          negative = (s \<noteq> [] \<and> hd s = CHR ''-'');
          s = (if s \<noteq> [] \<and> (hd s = CHR ''-'' \<or> hd s = CHR ''+'') then tl s else s);
          ds = takeWhile is_digit s
      in if ds = [] then None
         else Some (if negative then - int (digits_value ds) else int (digits_value ds)))"

definition monthNames :: "string list" where
  "monthNames =
     [''January'', ''February'', ''March'', ''April'', ''May'', ''June'',
      ''July'', ''August'', ''September'', ''October'', ''November'', ''December'']"

text \<open>
  \<^verbatim>\<open>RewardCalculator.getMonthYearDisplay(monthYearKey)\<close>. The destructuring
  \<^verbatim>\<open>[year, month]\<close> reads the first two parts, which \<^verbatim>\<open>parseInt\<close> and the template
  literal turn into text; \<^verbatim>\<open>monthNames[monthIndex]\<close> is \<^verbatim>\<open>undefined\<close> unless the index
  is one of 0 to 11. No step of the function raises: the result is a string for every
  argument.
\<close>

definition getMonthYearDisplay :: "jsval \<Rightarrow> string" where
  "getMonthYearDisplay monthYearKey =
     (case monthYearKey of
        Str key \<Rightarrow>
          if CHR ''-'' \<notin> set key then ''Invalid Date''
          else
            let parts = split CHR ''-'' key;
                year = element_text parts 0;
                month = element_text parts 1;
                monthIndex = (case parseInt month of None \<Rightarrow> None | Some n \<Rightarrow> Some (n - 1));
                monthName =
                  (case monthIndex of
                     None \<Rightarrow> ''Unknown''
                   | Some i \<Rightarrow>
                       if 0 \<le> i \<and> i < int (length monthNames) then monthNames ! nat i
                       else ''Unknown'')
            in monthName @ '' '' @ year
      | _ \<Rightarrow> ''Invalid Date'')"

section \<open>The specification's notions\<close>

subsection \<open>Amounts\<close>



subsection \<open>Batches\<close>

text \<open>
  The elements an aggregate skips, in the specification's words: an element that is
  null, or whose amount is not a number, or whose amount is \<^verbatim>\<open>NaN\<close> or negative. (A value
  without an \<^verbatim>\<open>amount\<close> property has the amount \<^verbatim>\<open>undefined\<close>, which is not a number.)
\<close>

definition skipped :: "jsval \<Rightarrow> bool" where
  "skipped t =
     (t = Null \<or>
      (case get_prop t ''amount'' of Num a \<Rightarrow> a = NaN \<or> js_lt a (Fin 0) | _ \<Rightarrow> True))"

text \<open>The points and the amount of an element that is not skipped.\<close>

definition points_of :: "jsval \<Rightarrow> jsnum" where
  "points_of t =
     (case calculatePointsForTransaction (get_prop t ''amount'') of
        Inr p \<Rightarrow> p
      | Inl e \<Rightarrow> Fin 0)"

definition amount_of :: "jsval \<Rightarrow> jsnum" where
  "amount_of t = (case get_prop t ''amount'' of Num a \<Rightarrow> a | _ \<Rightarrow> NaN)"

text \<open>The sum of a list of numbers, added from the left starting at 0.\<close>

definition js_sum :: "jsnum list \<Rightarrow> jsnum" where
  "js_sum xs = foldl js_add (Fin 0) xs"



subsection \<open>Months\<close>

text \<open>
  The elements the monthly breakdown retains: those not skipped whose date is present
  and is read as a valid date. The month key of a retained element is the key of that
  date.
\<close>

definition retained :: "(jsval \<Rightarrow> jsdate option) \<Rightarrow> jsval \<Rightarrow> bool" where
  "retained newDate t =
     (\<not> skipped t \<and> truthy (get_prop t ''date'') \<and> newDate (get_prop t ''date'') \<noteq> None)"

definition month_key :: "(jsval \<Rightarrow> jsdate option) \<Rightarrow> jsval \<Rightarrow> string" where
  "month_key newDate t =
     (case getMonthYearKey (newDate (get_prop t ''date'')) of
        Inr k \<Rightarrow> k
      | Inl e \<Rightarrow> [])"

definition in_month :: "(jsval \<Rightarrow> jsdate option) \<Rightarrow> string \<Rightarrow> jsval list \<Rightarrow> jsval list" where
  "in_month newDate k ts = filter (\<lambda>t. retained newDate t \<and> month_key newDate t = k) ts"

text \<open>
  The specification's bucket of a month key: the sum of the points, the number and the
  sum of the amounts of the retained elements of that month; a key with no retained
  element has no bucket.
\<close>

definition bucket_spec ::
  "(jsval \<Rightarrow> jsdate option) \<Rightarrow> string \<Rightarrow> jsval list \<Rightarrow> monthly_bucket" where
  "bucket_spec newDate k ts =
     \<lparr>points = js_sum (map points_of (in_month newDate k ts)),
      transactionCount = length (in_month newDate k ts),
      totalAmount = js_sum (map amount_of (in_month newDate k ts))\<rparr>"

definition breakdown_spec ::
  "(jsval \<Rightarrow> jsdate option) \<Rightarrow> jsval list \<Rightarrow> string \<Rightarrow> monthly_bucket option" where
  "breakdown_spec newDate ts k =
     (if in_month newDate k ts = [] then None else Some (bucket_spec newDate k ts))"

text \<open>
  One round of the loop on a retained element, and the rounds of one month folded over a
  bucket: the vocabulary of the loop invariant.
\<close>

definition zero_bucket :: monthly_bucket where
  "zero_bucket = \<lparr>points = Fin 0, transactionCount = 0, totalAmount = Fin 0\<rparr>"

definition add_to :: "string \<Rightarrow> jsnum \<Rightarrow> jsnum \<Rightarrow> monthly_breakdown \<Rightarrow> monthly_breakdown" where
  "add_to k pts amount mb =
     AList.map_entry k (accumulate pts amount)
       (if map_of mb k = None
        then mb @ [(k, \<lparr>points = Fin 0, transactionCount = 0, totalAmount = Fin 0\<rparr>)]
        else mb)"

definition accumulate_all :: "jsval list \<Rightarrow> monthly_bucket \<Rightarrow> monthly_bucket" where
  "accumulate_all rs b = foldl (\<lambda>b t. accumulate (points_of t) (amount_of t) b) b rs"

text \<open>The batch of scenario 6 of the specification.\<close>

definition example_months :: jsval where
  "example_months =
     Arr [Obj [(''amount'', Num (Fin 120)), (''date'', Str ''2025-01-15'')],
          Obj [(''amount'', Num (Fin 75)), (''date'', Str ''2025-01-20'')],
          Obj [(''amount'', Num (Fin 150)), (''date'', Str ''2025-02-10'')]]"

text \<open>
  A stand-in for the runtime's \<^verbatim>\<open>Date\<close> constructor, to have one instance of the
  parameter: it reads a date-only string \<^verbatim>\<open>YYYY-MM-DD\<close> with a month 01 to 12 and a day 01
  to 28 as that calendar day, as a runtime whose time zone is UTC does, and takes every
  other value for an invalid date.
\<close>

definition sample_newDate :: "jsval \<Rightarrow> jsdate option" where
  "sample_newDate v =
     (case v of
        Str s \<Rightarrow>
          if length s = 10 \<and> s ! 4 = CHR ''-'' \<and> s ! 7 = CHR ''-'' \<and>
             list_all is_digit (take 4 s) \<and> list_all is_digit (take 2 (drop 5 s)) \<and>
             list_all is_digit (drop 8 s) \<and>
             1 \<le> digits_value (take 2 (drop 5 s)) \<and> digits_value (take 2 (drop 5 s)) \<le> 12 \<and>
             1 \<le> digits_value (drop 8 s) \<and> digits_value (drop 8 s) \<le> 28
          then Some \<lparr>getFullYear = int (digits_value (take 4 s)),
                     getMonth = digits_value (take 2 (drop 5 s)) - 1\<rparr>
          else None
      | _ \<Rightarrow> None)"

subsection \<open>Month keys\<close>

text \<open>
  The shape \<^verbatim>\<open>YYYY-MM\<close>: four digits, the separator, two digits. A key is well formed
  when it has the shape and its month is one of 1 to 12.
\<close>

definition key_shape :: "string \<Rightarrow> bool" where
  "key_shape s =
     (length s = 7 \<and> list_all is_digit (take 4 s) \<and> s ! 4 = CHR ''-'' \<and>
      list_all is_digit (drop 5 s))"

definition well_formed_key :: "string \<Rightarrow> bool" where
  "well_formed_key s =
     (key_shape s \<and> 1 \<le> digits_value (drop 5 s) \<and> digits_value (drop 5 s) \<le> 12)"

text \<open>
  The text before the first separator, the text between the first and the second, and
  the name that the second one stands for.
\<close>

definition year_part :: "string \<Rightarrow> string" where
  "year_part s = takeWhile (\<lambda>c. c \<noteq> CHR ''-'') s"

definition month_part :: "string \<Rightarrow> string" where
  "month_part s = takeWhile (\<lambda>c. c \<noteq> CHR ''-'') (tl (dropWhile (\<lambda>c. c \<noteq> CHR ''-'') s))"

definition month_name :: "string \<Rightarrow> string" where
  "month_name m =
     (case parseInt m of
        None \<Rightarrow> ''Unknown''
      | Some n \<Rightarrow> if 1 \<le> n \<and> n \<le> 12 then monthNames ! nat (n - 1) else ''Unknown'')"

section \<open>Points of one transaction: properties\<close>

lemmas rewards_defs = HIGH_THRESHOLD_def LOW_THRESHOLD_def HIGH_MULTIPLIER_def LOW_MULTIPLIER_def

lemmas js_defs = js_sub_def js_gt_def js_ge_def js_le_def isNaN_def Math_min_def
















section \<open>Total over a list of transactions: properties\<close>

lemma typeof_number: "(typeof v = ''number'') = (\<exists>a. v = Num a)"
  by (cases v) simp_all

lemma points_raise_iff:
  "(\<exists>e. calculatePointsForTransaction (Num a) = Inl e) = (a = NaN \<or> js_lt a (Fin 0))"
  by (simp add: calculatePointsForTransaction_def isNaN_def Let_def)

lemma get_prop_falsy: "\<not> truthy t \<Longrightarrow> get_prop t k = Undefined"
  by (cases t) simp_all

text \<open>The specification's skipped elements are exactly those that an iteration passes over.\<close>

lemma skipped_iff:
  "skipped t =
     (\<not> truthy t \<or> typeof (get_prop t ''amount'') \<noteq> ''number'' \<or>
      (\<exists>e. calculatePointsForTransaction (get_prop t ''amount'') = Inl e))"
proof (cases "truthy t")
  case False
  then show ?thesis by (simp add: skipped_def get_prop_falsy)
next
  case True
  then have "t \<noteq> Null" by auto
  then show ?thesis
    using True points_raise_iff
    by (cases "get_prop t ''amount''") (simp_all add: skipped_def)
qed

lemma not_skipped_points:
  "\<not> skipped t \<Longrightarrow> calculatePointsForTransaction (get_prop t ''amount'') = Inr (points_of t)"
  by (cases "calculatePointsForTransaction (get_prop t ''amount'')")
    (auto simp: skipped_iff points_of_def)





section \<open>Monthly breakdown: properties\<close>

lemma getMonthYearKey_Some: "\<exists>k. getMonthYearKey (Some d) = Inr k"
  by (simp add: getMonthYearKey_def Let_def)

text \<open>One round of the loop: a retained element is added to its month, any other is passed over.\<close>

lemma breakdown_loop_retained:
  assumes "retained newDate t"
  shows "breakdown_loop newDate (t # ts) mb =
     breakdown_loop newDate ts (add_to (month_key newDate t) (points_of t) (amount_of t) mb)"
proof -
  from assms have ns: "\<not> skipped t" and d: "truthy (get_prop t ''date'')"
    and nd: "newDate (get_prop t ''date'') \<noteq> None"
    by (simp_all add: retained_def)
  from ns have t: "truthy t" by (simp add: skipped_iff)
  from ns obtain a where a: "get_prop t ''amount'' = Num a"
    by (auto simp: skipped_iff typeof_number)
  from nd obtain dt where dt: "newDate (get_prop t ''date'') = Some dt" by auto
  obtain k where k: "getMonthYearKey (Some dt) = Inr k"
    using getMonthYearKey_Some by blast
  have p: "calculatePointsForTransaction (Num a) = Inr (points_of t)"
    using not_skipped_points [OF ns] a by simp
  show ?thesis
    using t d a dt k p
    by (simp add: breakdown_loop.simps add_to_def month_key_def amount_of_def)
qed

lemma breakdown_loop_dropped:
  assumes "\<not> retained newDate t"
  shows "breakdown_loop newDate (t # ts) mb = breakdown_loop newDate ts mb"
proof (cases "truthy t \<and> truthy (get_prop t ''date'')")
  case False
  then show ?thesis by (auto simp: breakdown_loop.simps)
next
  case True
  show ?thesis
  proof (cases "get_prop t ''amount''")
    case (Num a)
    show ?thesis
    proof (cases "newDate (get_prop t ''date'')")
      case None
      then show ?thesis using True Num by (simp add: breakdown_loop.simps)
    next
      case (Some dt)
      with assms True have "skipped t" by (simp add: retained_def)
      then obtain e where "calculatePointsForTransaction (Num a) = Inl e"
        using True Num by (auto simp: skipped_iff)
      then show ?thesis
        using True Num Some by (simp add: breakdown_loop.simps split: sum.splits)
    qed
  qed (use True in \<open>simp_all add: breakdown_loop.simps\<close>)
qed

lemma accumulate_all_fields:
  "accumulate_all rs b =
     \<lparr>points = foldl js_add (points b) (map points_of rs),
      transactionCount = transactionCount b + length rs,
      totalAmount = foldl js_add (totalAmount b) (map amount_of rs)\<rparr>"
  unfolding accumulate_all_def
  by (induction rs arbitrary: b) (simp_all add: accumulate_def)

lemma map_of_add_to:
  "map_of (add_to k p a mb) k' =
     (if k' = k
      then Some (accumulate p a (case map_of mb k of None \<Rightarrow> zero_bucket | Some b \<Rightarrow> b))
      else map_of mb k')"
  by (auto simp: add_to_def AList.map_of_map_entry zero_bucket_def map_add_def
      split: option.splits)

lemma distinct_add_to: "distinct (map fst mb) \<Longrightarrow> distinct (map fst (add_to k p a mb))"
  unfolding add_to_def
  by (rule AList.distinct_map_entry) (auto simp: map_of_eq_None_iff)

text \<open>
  The loop invariant: after the loop, the bucket of a key is what the retained elements
  of that month add to the bucket the key had before, or to an empty bucket.
\<close>

lemma breakdown_loop_lookup:
  "map_of (breakdown_loop newDate ts mb) k =
     (case map_of mb k of
        None \<Rightarrow>
          if in_month newDate k ts = [] then None
          else Some (accumulate_all (in_month newDate k ts) zero_bucket)
      | Some b \<Rightarrow> Some (accumulate_all (in_month newDate k ts) b))"
proof (induction ts arbitrary: mb)
  case Nil
  then show ?case by (simp add: in_month_def accumulate_all_def split: option.splits)
next
  case (Cons t ts)
  show ?case
  proof (cases "retained newDate t")
    case False
    then have "in_month newDate k (t # ts) = in_month newDate k ts"
      by (simp add: in_month_def)
    then show ?thesis
      using False Cons.IH [of mb] by (simp add: breakdown_loop_dropped split: option.splits)
  next
    case True
    show ?thesis
    proof (cases "month_key newDate t = k")
      case True
      with \<open>retained newDate t\<close> have "in_month newDate k (t # ts) = t # in_month newDate k ts"
        by (simp add: in_month_def)
      then show ?thesis
        using \<open>retained newDate t\<close> True Cons.IH [of "add_to k (points_of t) (amount_of t) mb"]
        by (simp add: breakdown_loop_retained map_of_add_to accumulate_all_def
            split: option.splits)
    next
      case False
      then have "in_month newDate k (t # ts) = in_month newDate k ts"
        by (auto simp: in_month_def)
      then show ?thesis
        using \<open>retained newDate t\<close> False
          Cons.IH [of "add_to (month_key newDate t) (points_of t) (amount_of t) mb"]
        by (simp add: breakdown_loop_retained map_of_add_to split: option.splits)
    qed
  qed
qed

lemma breakdown_loop_distinct:
  "distinct (map fst mb) \<Longrightarrow> distinct (map fst (breakdown_loop newDate ts mb))"
proof (induction ts arbitrary: mb)
  case Nil
  then show ?case by simp
next
  case (Cons t ts)
  then show ?case
    by (cases "retained newDate t")
      (simp_all add: breakdown_loop_retained breakdown_loop_dropped distinct_add_to)
qed

lemma breakdown_refines:
  "map_of (breakdown_loop newDate ts []) k = breakdown_spec newDate ts k"
  by (simp add: breakdown_loop_lookup breakdown_spec_def bucket_spec_def accumulate_all_fields
      zero_bucket_def js_sum_def)

subsection \<open>The format of a month key\<close>






subsection \<open>The scenario\<close>

lemma sample_newDate_scenario:
  "sample_newDate (Str ''2025-01-15'') = Some \<lparr>getFullYear = 2025, getMonth = 0\<rparr>"
  "sample_newDate (Str ''2025-01-20'') = Some \<lparr>getFullYear = 2025, getMonth = 0\<rparr>"
  "sample_newDate (Str ''2025-02-10'') = Some \<lparr>getFullYear = 2025, getMonth = 1\<rparr>"
  by (simp_all add: sample_newDate_def is_digit_def digits_value_def)

lemma key_january:
  "getMonthYearKey (Some \<lparr>getFullYear = 2025, getMonth = 0\<rparr>) = Inr ''2025-01''"
  by (simp add: getMonthYearKey_def string_of_int_def string_of_nat.simps padStart_def
      digit_char_def)

lemma key_february:
  "getMonthYearKey (Some \<lparr>getFullYear = 2025, getMonth = Suc 0\<rparr>) = Inr ''2025-02''"
  by (simp add: getMonthYearKey_def string_of_int_def string_of_nat.simps padStart_def
      digit_char_def)

lemma example_breakdown:
  assumes "newDate (Str ''2025-01-15'') = Some \<lparr>getFullYear = 2025, getMonth = 0\<rparr>"
    and "newDate (Str ''2025-01-20'') = Some \<lparr>getFullYear = 2025, getMonth = 0\<rparr>"
    and "newDate (Str ''2025-02-10'') = Some \<lparr>getFullYear = 2025, getMonth = 1\<rparr>"
  shows "calculateMonthlyBreakdown newDate example_months =
     Inr [(''2025-01'', \<lparr>points = Fin 115, transactionCount = 2, totalAmount = Fin 195\<rparr>),
          (''2025-02'', \<lparr>points = Fin 150, transactionCount = 1, totalAmount = Fin 150\<rparr>)]"
  using assms
  by (simp add: calculateMonthlyBreakdown_def example_months_def breakdown_loop.simps
      key_january key_february calculatePointsForTransaction_def rewards_defs js_defs
      accumulate_def Let_def)



text \<open>
  Claim C10. Every bucket of the mapping that \<^verbatim>\<open>calculateMonthlyBreakdown\<close> returns has a
  count of at least 1, and its key is the month key of a retained element of the input
  array: no bucket is empty.
\<close>

theorem monthly_buckets_nonempty:
  "calculateMonthlyBreakdown newDate v = Inr mb \<Longrightarrow> (k, b) \<in> set mb \<Longrightarrow>
   1 \<le> transactionCount b \<and>
   (\<exists>ts t. v = Arr ts \<and> t \<in> set ts \<and> retained newDate t \<and> month_key newDate t = k)"
proof -
  assume r: "calculateMonthlyBreakdown newDate v = Inr mb" and kb: "(k, b) \<in> set mb"
  from r obtain ts where v: "v = Arr ts" and mb: "mb = breakdown_loop newDate ts []"
    by (cases v) (simp_all add: calculateMonthlyBreakdown_def)
  have "distinct (map fst mb)"
    unfolding mb by (rule breakdown_loop_distinct) simp
  with kb have "map_of mb k = Some b" by simp
  then have "breakdown_spec newDate ts k = Some b"
    by (simp add: mb breakdown_refines)
  then have ne: "in_month newDate k ts \<noteq> []" and b: "b = bucket_spec newDate k ts"
    by (simp_all add: breakdown_spec_def split: if_splits)
  from ne have "1 \<le> transactionCount b"
    by (cases "in_month newDate k ts") (simp_all add: b bucket_spec_def)
  moreover from ne obtain t where "t \<in> set (in_month newDate k ts)"
    by (cases "in_month newDate k ts") auto
  then have "t \<in> set ts \<and> retained newDate t \<and> month_key newDate t = k"
    by (simp add: in_month_def)
  ultimately show ?thesis using v by blast
qed

theorem monthly_buckets_nonempty_witness:
  "calculateMonthlyBreakdown sample_newDate example_months =
     Inr [(''2025-01'', \<lparr>points = Fin 115, transactionCount = 2, totalAmount = Fin 195\<rparr>),
          (''2025-02'', \<lparr>points = Fin 150, transactionCount = 1, totalAmount = Fin 150\<rparr>)] \<and>
   (1::nat) \<le> transactionCount
      \<lparr>points = Fin 150, transactionCount = 1, totalAmount = Fin 150\<rparr> \<and>
   (\<exists>ts t. example_months = Arr ts \<and> t \<in> set ts \<and> retained sample_newDate t \<and>
      month_key sample_newDate t = ''2025-02'')"
proof -
  let ?jan = "\<lparr>points = Fin 115, transactionCount = 2, totalAmount = Fin 195\<rparr>"
  let ?feb = "\<lparr>points = Fin 150, transactionCount = 1, totalAmount = Fin 150\<rparr>"
  have r: "calculateMonthlyBreakdown sample_newDate example_months =
      Inr [(''2025-01'', ?jan), (''2025-02'', ?feb)]"
    by (rule example_breakdown) (rule sample_newDate_scenario)+
  have m: "(''2025-02'', ?feb) \<in> set [(''2025-01'', ?jan), (''2025-02'', ?feb)]"
    by simp
  show ?thesis
    using monthly_buckets_nonempty [OF r m] r by blast
qed

section \<open>Transactions annotated with their points: properties\<close>

text \<open>
  Claim C1 fails on the code. On the input of the repository's own test
  \<^verbatim>\<open>should handle invalid transactions with 0 points\<close>, two records of which the first
  has the amount \<^verbatim>\<open>'invalid'\<close>, \<^verbatim>\<open>calculatePointsWithDetails\<close> returns one record only:
  the first is dropped by the guard instead of being emitted with zero points.
\<close>

theorem details_drop_non_numeric_amount:
  "calculatePointsWithDetails
     (Arr [Obj [(''transactionId'', Str ''T1''), (''amount'', Str ''invalid'')],
           Obj [(''transactionId'', Str ''T2''), (''amount'', Num (Fin 75))]]) =
   Inr [Obj [(''transactionId'', Str ''T2''), (''amount'', Num (Fin 75)),
             (''points'', Num (Fin 25)),
             (''pointsBreakdown'',
              Obj [(''highTier'', Num (Fin 0)), (''lowTier'', Num (Fin 25))])]]"
  by (simp add: calculatePointsWithDetails_def calculatePointsForTransaction_def
      getPointsBreakdown_def with_points_def breakdown_obj_def rewards_defs js_defs)

section \<open>Display of a month key: properties\<close>

lemma split_nonempty: "split c s \<noteq> []"
  by (induction s) (simp_all split: list.splits)

lemma hd_split: "hd (split c s) = takeWhile (\<lambda>x. x \<noteq> c) s"
  by (induction s) (auto simp: split_nonempty split: list.splits)

lemma tl_split:
  "tl (split c s) = (if c \<in> set s then split c (tl (dropWhile (\<lambda>x. x \<noteq> c) s)) else [])"
  by (induction s) (auto split: list.splits)

text \<open>A string with a separator has a first and a second part.\<close>

lemma split_parts:
  assumes "c \<in> set s"
  shows "element_text (split c s) 0 = takeWhile (\<lambda>x. x \<noteq> c) s"
    and "element_text (split c s) (Suc 0) =
      takeWhile (\<lambda>x. x \<noteq> c) (tl (dropWhile (\<lambda>x. x \<noteq> c) s))"
proof -
  let ?rest = "tl (dropWhile (\<lambda>x. x \<noteq> c) s)"
  obtain p ps where first: "split c s = p # ps"
    using split_nonempty [of c s] by (cases "split c s") auto
  obtain q qs where second: "split c ?rest = q # qs"
    using split_nonempty [of c ?rest] by (cases "split c ?rest") auto
  have ps: "ps = q # qs"
    using tl_split [of c s] assms first second by simp
  have "p = takeWhile (\<lambda>x. x \<noteq> c) s"
    using hd_split [of c s] first by simp
  then show "element_text (split c s) 0 = takeWhile (\<lambda>x. x \<noteq> c) s"
    by (simp add: element_text_def first)
  have "q = takeWhile (\<lambda>x. x \<noteq> c) ?rest"
    using hd_split [of c ?rest] second by simp
  then show "element_text (split c s) (Suc 0) = takeWhile (\<lambda>x. x \<noteq> c) ?rest"
    by (simp add: element_text_def first ps)
qed

text \<open>The result on a string with a separator, by its two parts.\<close>

lemma display_string:
  "CHR ''-'' \<in> set s \<Longrightarrow>
   getMonthYearDisplay (Str s) = month_name (month_part s) @ '' '' @ year_part s"
  by (auto simp: getMonthYearDisplay_def Let_def split_parts month_name_def
      month_part_def year_part_def monthNames_def split: option.splits)

lemma length_monthNames: "length monthNames = 12"
  by (simp add: monthNames_def)

lemma month_name_cases: "month_name m \<in> set monthNames \<or> month_name m = ''Unknown''"
proof (cases "parseInt m")
  case None
  then show ?thesis by (simp add: month_name_def)
next
  case (Some n)
  show ?thesis
  proof (cases "1 \<le> n \<and> n \<le> 12")
    case True
    then have "nat (n - 1) < 12" by linarith
    then have "nat (n - 1) < length monthNames" by (simp add: length_monthNames)
    then have "monthNames ! nat (n - 1) \<in> set monthNames" by (rule nth_mem)
    then show ?thesis using Some True by (simp add: month_name_def)
  next
    case False
    then show ?thesis using Some by (auto simp: month_name_def)
  qed
qed

lemma display_not_invalid:
  "CHR ''-'' \<in> set s \<Longrightarrow> getMonthYearDisplay (Str s) \<noteq> ''Invalid Date''"
  using month_name_cases [of "month_part s"]
  by (auto simp: display_string monthNames_def)

lemma is_digit_not_sep:
  "is_digit c \<Longrightarrow> c \<noteq> CHR ''-'' \<and> c \<noteq> CHR ''+'' \<and> \<not> is_white c"
  by (auto simp: is_digit_def is_white_def)

lemma parseInt_digits:
  assumes "ds \<noteq> []" and "list_all is_digit ds"
  shows "parseInt ds = Some (int (digits_value ds))"
proof -
  from assms obtain d r where ds: "ds = d # r" by (cases ds) auto
  with assms have d: "is_digit d" by simp
  have tw: "takeWhile is_digit ds = ds"
    using assms(2) by (simp add: takeWhile_eq_all_conv list_all_iff)
  show ?thesis
    using is_digit_not_sep [OF d] tw
    by (simp add: parseInt_def ds Let_def)
qed

lemma key_shape_parts:
  assumes "key_shape s"
  shows "CHR ''-'' \<in> set s" and "year_part s = take 4 s" and "month_part s = drop 5 s"
proof -
  from assms have len: "length s = 7" and y: "list_all is_digit (take 4 s)"
    and sep: "s ! 4 = CHR ''-''" and m: "list_all is_digit (drop 5 s)"
    by (simp_all add: key_shape_def)
  have s: "s = take 4 s @ CHR ''-'' # drop 5 s"
    using id_take_nth_drop [of 4 s] len sep by simp
  have ynd: "\<forall>c \<in> set (take 4 s). c \<noteq> CHR ''-''"
    using y is_digit_not_sep by (auto simp: list_all_iff)
  have mnd: "\<forall>c \<in> set (drop 5 s). c \<noteq> CHR ''-''"
    using m is_digit_not_sep by (auto simp: list_all_iff)
  show "CHR ''-'' \<in> set s" by (subst s) simp
  have "takeWhile (\<lambda>c. c \<noteq> CHR ''-'') (take 4 s @ CHR ''-'' # drop 5 s) = take 4 s"
    using ynd by (simp add: takeWhile_append2)
  then show "year_part s = take 4 s" using s by (simp add: year_part_def)
  have "dropWhile (\<lambda>c. c \<noteq> CHR ''-'') (take 4 s @ CHR ''-'' # drop 5 s) =
      CHR ''-'' # drop 5 s"
    using ynd by (simp add: dropWhile_append2)
  then have "tl (dropWhile (\<lambda>c. c \<noteq> CHR ''-'') s) = drop 5 s"
    using s by simp
  then show "month_part s = drop 5 s"
    using mnd by (simp add: month_part_def takeWhile_eq_all_conv)
qed

lemma display_key_shape:
  assumes "key_shape s"
  shows "getMonthYearDisplay (Str s) =
     (if 1 \<le> digits_value (drop 5 s) \<and> digits_value (drop 5 s) \<le> 12
      then monthNames ! (digits_value (drop 5 s) - 1) else ''Unknown'') @ '' '' @ take 4 s"
proof -
  from assms have len: "length s = 7" and m: "list_all is_digit (drop 5 s)"
    by (simp_all add: key_shape_def)
  from len have "drop 5 s \<noteq> []" by simp
  then have "parseInt (drop 5 s) = Some (int (digits_value (drop 5 s)))"
    using m by (rule parseInt_digits)
  then have "month_name (drop 5 s) =
      (if 1 \<le> digits_value (drop 5 s) \<and> digits_value (drop 5 s) \<le> 12
       then monthNames ! (digits_value (drop 5 s) - 1) else ''Unknown'')"
    by (simp add: month_name_def nat_diff_distrib')
  then show ?thesis
    using key_shape_parts [OF assms] by (simp add: display_string)
qed

text \<open>
  Claim C9, as amended. \<^verbatim>\<open>getMonthYearDisplay\<close> maps every well-formed key \<^verbatim>\<open>YYYY-MM\<close>
  with a month 1 to 12 to the name of the month, a space and the year, and a key of that
  shape with any other month to \<^verbatim>\<open>Unknown\<close>, a space and the year. It returns
  \<^verbatim>\<open>Invalid Date\<close> exactly when its argument is not a string or is a string without a
  separator. On every string with a separator, whatever its shape, it returns a name, a
  space and the text before the first separator, where the name is that of the month
  when \<^verbatim>\<open>parseInt\<close> reads a number 1 to 12 from the text between the first and the second
  separator, and \<^verbatim>\<open>Unknown\<close> otherwise. It returns a string on every value: it never
  raises.
\<close>

theorem month_display:
  "(well_formed_key s \<longrightarrow>
      getMonthYearDisplay (Str s) =
        monthNames ! (digits_value (drop 5 s) - 1) @ '' '' @ take 4 s) \<and>
   (key_shape s \<and> \<not> well_formed_key s \<longrightarrow>
      getMonthYearDisplay (Str s) = ''Unknown '' @ take 4 s) \<and>
   (getMonthYearDisplay v = ''Invalid Date'') =
      (case v of Str k \<Rightarrow> CHR ''-'' \<notin> set k | _ \<Rightarrow> True) \<and>
   (CHR ''-'' \<in> set s \<longrightarrow>
      getMonthYearDisplay (Str s) = month_name (month_part s) @ '' '' @ year_part s)"
proof (intro conjI impI)
  show "(getMonthYearDisplay v = ''Invalid Date'') =
      (case v of Str k \<Rightarrow> CHR ''-'' \<notin> set k | _ \<Rightarrow> True)"
  proof (cases v)
    case (Str k)
    then show ?thesis
      using display_not_invalid [of k] by (auto simp: getMonthYearDisplay_def)
  qed (simp_all add: getMonthYearDisplay_def)
next
  assume "well_formed_key s"
  then show "getMonthYearDisplay (Str s) =
      monthNames ! (digits_value (drop 5 s) - 1) @ '' '' @ take 4 s"
    by (simp add: well_formed_key_def display_key_shape)
next
  assume "key_shape s \<and> \<not> well_formed_key s"
  then show "getMonthYearDisplay (Str s) = ''Unknown '' @ take 4 s"
    by (auto simp: well_formed_key_def display_key_shape)
qed (simp add: display_string)

theorem month_display_witness:
  "getMonthYearDisplay (Str ''2025-01'') = ''January 2025'' \<and>
   getMonthYearDisplay (Str ''2025-13'') = ''Unknown 2025'' \<and>
   getMonthYearDisplay (Str ''invalid'') = ''Invalid Date'' \<and>
   getMonthYearDisplay Null = ''Invalid Date''"
  using month_display [of "''2025-01''" "Str ''invalid''"]
    month_display [of "''2025-13''" Null]
  by (simp add: well_formed_key_def key_shape_def is_digit_def digits_value_def monthNames_def)

text \<open>
  Claim C9 as stated fails on a string of the wrong shape that has a separator:
  \<^verbatim>\<open>'abc-def'\<close> is not of the shape \<^verbatim>\<open>YYYY-MM\<close>, yet the result is \<^verbatim>\<open>Unknown abc\<close> and not
  \<^verbatim>\<open>Invalid Date\<close>.
\<close>

theorem month_display_counterexample:
  "\<not> key_shape ''abc-def'' \<and>
   getMonthYearDisplay (Str ''abc-def'') = ''Unknown abc'' \<and>
   getMonthYearDisplay (Str ''abc-def'') \<noteq> ''Invalid Date''"
  by (simp add: key_shape_def getMonthYearDisplay_def element_text_def parseInt_def
      is_white_def is_digit_def Let_def)

end
